theory Spec2Isabelle
  imports Complex_Main
begin

section \<open>PyETo: the FAO-56 estimators of \<^verbatim>\<open>pyeto/fao.py\<close>\<close>

text \<open>
  The module is a flat library of stateless numeric functions. Each function modelled
  below keeps the name, the argument order and the order of checks of its Python source.

  Conventions of the embedding:
  \<^item> A Python \<^verbatim>\<open>float\<close> is a \<^typ>\<open>real\<close>: arithmetic is exact, and rounding, overflow and
    NaN are outside the model. A day of the year and a psychrometer type are \<^typ>\<open>int\<close>.
  \<^item> A call that raises returns \<open>Inl\<close> of the exception, a call that returns gives \<open>Inr\<close>
    of the value.
  \<^item> The only exception class the module raises on purpose is \<^verbatim>\<open>ValueError\<close> (by an
    explicit \<^verbatim>\<open>raise\<close>, by a validator, or by \<^verbatim>\<open>math.sqrt\<close> and \<^verbatim>\<open>math.acos\<close> outside
    their domains); the specification calls it \<open>DomainError\<close> for a value out of range
    and \<open>InvalidArgument\<close> for an unknown psychrometer type. A float division by zero
    raises \<^verbatim>\<open>ZeroDivisionError\<close>, and the use of a name that the module does not bind
    raises \<^verbatim>\<open>NameError\<close>.
\<close>

subsection \<open>Exceptions and Python primitives\<close>

datatype error = ValueError | ZeroDivisionError | NameError

text \<open>Sequencing of a statement that may raise with the rest of the function body.\<close>

definition and_then :: "error + 'a \<Rightarrow> ('a \<Rightarrow> error + 'b) \<Rightarrow> error + 'b" where
  "and_then r f = (case r of Inl e \<Rightarrow> Inl e | Inr v \<Rightarrow> f v)"

text \<open>\<^verbatim>\<open>a / b\<close> on floats: Python raises where HOL's division returns 0.\<close>

definition py_div :: "real \<Rightarrow> real \<Rightarrow> error + real" where
  "py_div a b = (if b = 0 then Inl ZeroDivisionError else Inr (a / b))"

text \<open>\<^verbatim>\<open>math.sqrt\<close> and \<^verbatim>\<open>math.acos\<close> raise \<^verbatim>\<open>ValueError: math domain error\<close>.\<close>

definition math_sqrt :: "real \<Rightarrow> error + real" where
  "math_sqrt x = (if x < 0 then Inl ValueError else Inr (sqrt x))"

definition math_acos :: "real \<Rightarrow> error + real" where
  "math_acos x = (if - 1 \<le> x \<and> x \<le> 1 then Inr (arccos x) else Inl ValueError)"

text \<open>
  The value of an arithmetic expression is a float or, once a negative float has been
  raised to a fractional power, a complex number: in Python 3 \<^verbatim>\<open>x ** 0.5\<close> with
  \<^verbatim>\<open>x < 0\<close> does not raise, it returns the principal complex square root.
\<close>

datatype pyval = PyFloat real | PyComplex complex

definition pow_half :: "real \<Rightarrow> pyval" where
  "pow_half x = (if x < 0 then PyComplex (csqrt (complex_of_real x)) else PyFloat (sqrt x))"

fun py_mul :: "pyval \<Rightarrow> pyval \<Rightarrow> pyval" where
  "py_mul (PyFloat a) (PyFloat b) = PyFloat (a * b)"
| "py_mul (PyFloat a) (PyComplex w) = PyComplex (complex_of_real a * w)"
| "py_mul (PyComplex z) (PyFloat b) = PyComplex (z * complex_of_real b)"
| "py_mul (PyComplex z) (PyComplex w) = PyComplex (z * w)"

subsection \<open>Validators of module \<^verbatim>\<open>_check\<close> and the names \<^verbatim>\<open>fao.py\<close> binds\<close>

text \<open>
  The validators live in the module \<^verbatim>\<open>_check\<close>, which is not among the sources at
  hand. Each returns nothing when its argument is in range and raises otherwise.
\<close>

text \<open>Modelled from the spec: the latitude validator of \<^verbatim>\<open>_check\<close>, which "fails with
  DomainError if the value falls outside [-\<pi>/2, \<pi>/2]".\<close>

definition check_latitude_in_radians :: "real \<Rightarrow> error + unit" where
  "check_latitude_in_radians latitude =
     (if - (pi / 2) \<le> latitude \<and> latitude \<le> pi / 2 then Inr () else Inl ValueError)"

text \<open>Modelled from the spec: the declination validator of \<^verbatim>\<open>_check\<close>, which "fails with
  DomainError if outside [-0.4093, 0.4093]".\<close>

definition check_solar_declination_in_radians :: "real \<Rightarrow> error + unit" where
  "check_solar_declination_in_radians sd =
     (if - 0.4093 \<le> sd \<and> sd \<le> 0.4093 then Inr () else Inl ValueError)"

text \<open>Modelled from the spec: the day-of-year validator of \<^verbatim>\<open>_check\<close>, which "fails with
  DomainError if the integer is outside [1, 366]"; the day is passed as a number.\<close>

definition check_doy :: "real \<Rightarrow> error + unit" where
  "check_doy doy = (if 1 \<le> doy \<and> doy \<le> 366 then Inr () else Inl ValueError)"

text \<open>
  The only validator names \<^verbatim>\<open>fao.py\<close> binds are those of its line 18,
  \<^verbatim>\<open>from ._check import check_latitude_in_radians, check_doy\<close>. No statement of the
  module binds \<^verbatim>\<open>_check_latitude_in_radians\<close>, \<^verbatim>\<open>_check_solar_declination_in_radians\<close>
  or \<^verbatim>\<open>_check_doy\<close>, the names its functions call.
\<close>

definition fao_globals :: "string \<rightharpoonup> (real \<Rightarrow> error + unit)" where
  "fao_globals =
     [''check_latitude_in_radians'' \<mapsto> check_latitude_in_radians,
      ''check_doy'' \<mapsto> check_doy]"

text \<open>A call \<^verbatim>\<open>name(x)\<close> of a module-level name: Python looks the name up first and
  raises \<^verbatim>\<open>NameError\<close> when the module does not bind it.\<close>

definition call_global :: "string \<Rightarrow> real \<Rightarrow> error + unit" where
  "call_global name x = (case fao_globals name of None \<Rightarrow> Inl NameError | Some f \<Rightarrow> f x)"

subsection \<open>Public constants\<close>

definition SOLAR_CONSTANT :: real where
  "SOLAR_CONSTANT = 0.0820"

subsection \<open>Vapour pressure\<close>

text \<open>\<^verbatim>\<open>return 0.611 * math.exp((17.27 * tmin) / (tmin + 237.3))\<close>\<close>

definition ea_from_tmin :: "real \<Rightarrow> error + real" where
  "ea_from_tmin tmin =
     and_then (py_div (17.27 * tmin) (tmin + 237.3)) (\<lambda>q. Inr (0.611 * exp q))"

text \<open>\<^verbatim>\<open>return 0.6108 * math.exp((17.27 * t) / (t + 237.3))\<close>\<close>

definition es_from_t :: "real \<Rightarrow> error + real" where
  "es_from_t t =
     and_then (py_div (17.27 * t) (t + 237.3)) (\<lambda>q. Inr (0.6108 * exp q))"

text \<open>\<^verbatim>\<open>return (es_from_t(tmin) + es_from_t(tmax)) / 2.0\<close>: the operands are evaluated
  left to right.\<close>

definition mean_es :: "real \<Rightarrow> real \<Rightarrow> error + real" where
  "mean_es tmin tmax =
     and_then (es_from_t tmin) (\<lambda>a. and_then (es_from_t tmax) (\<lambda>b. Inr ((a + b) / 2)))"

subsection \<open>Radiation\<close>

text \<open>
  \<^verbatim>\<open>et_radiation\<close> passes \<^verbatim>\<open>latitude\<close> to both validators:
  \<^verbatim>\<open>
    _check_latitude_in_radians(latitude)
    _check_solar_declination_in_radians(latitude)
    tmp1 = (24.0 * 60.0) / math.pi
    tmp2 = sha * math.sin(latitude) * math.sin(sd)
    tmp3 = math.cos(latitude) * math.cos(sd) * math.sin(sha)
    return tmp1 * SOLAR_CONSTANT * irl * (tmp2 + tmp3)
  \<close>
  This one function is modelled with its two calls reaching the validators they name,
  the reading most favourable to the code, so that the argument each check receives can
  be examined. On the module as written neither name is bound and the first call
  raises \<^verbatim>\<open>NameError\<close>, as in \<open>sunset_hour_angle\<close> below; under either reading the
  declination \<^verbatim>\<open>sd\<close> is never checked.
\<close>

definition et_radiation :: "real \<Rightarrow> real \<Rightarrow> real \<Rightarrow> real \<Rightarrow> error + real" where
  "et_radiation latitude sd sha irl =
     and_then (check_latitude_in_radians latitude) (\<lambda>_.
     and_then (check_solar_declination_in_radians latitude) (\<lambda>_.
       let tmp1 = (24 * 60) / pi;
           tmp2 = sha * sin latitude * sin sd;
           tmp3 = cos latitude * cos sd * sin sha
       in Inr (tmp1 * SOLAR_CONSTANT * irl * (tmp2 + tmp3))))"

text \<open>\<^verbatim>\<open>return 0.0023 * (tmean + 17.8) * (tmax - tmin) ** 0.5 * Ra\<close>: the power binds
  tighter than the products, which associate to the left. No statement of the body
  raises.\<close>

definition hargreaves :: "real \<Rightarrow> real \<Rightarrow> real \<Rightarrow> real \<Rightarrow> error + pyval" where
  "hargreaves tmin tmax tmean Ra =
     Inr (py_mul (py_mul (PyFloat (0.0023 * (tmean + 17.8))) (pow_half (tmax - tmin)))
            (PyFloat Ra))"

text \<open>\<^verbatim>\<open>_check_doy(doy); return 1 + (0.033 * math.cos((2.0 * math.pi / 365.0) * doy))\<close>\<close>

definition inv_rel_dist_earth_sun :: "int \<Rightarrow> error + real" where
  "inv_rel_dist_earth_sun doy =
     and_then (call_global ''_check_doy'' (real_of_int doy)) (\<lambda>_.
       Inr (1 + (0.033 * cos ((2 * pi / 365) * real_of_int doy))))"

text \<open>
  \<^verbatim>\<open>
    if coastal: adj = 0.19
    else: adj = 0.16
    solar_rad = adj * math.sqrt(tmax - tmin) * et_rad
    return min(solar_rad, cs_rad)
  \<close>
\<close>

definition solar_radiation_from_t :: "real \<Rightarrow> real \<Rightarrow> real \<Rightarrow> real \<Rightarrow> bool \<Rightarrow> error + real" where
  "solar_radiation_from_t et_rad cs_rad tmin tmax coastal =
     (let adj = (if coastal then 0.19 else 0.16)
      in and_then (math_sqrt (tmax - tmin)) (\<lambda>s.
           let solar_rad = adj * s * et_rad
           in Inr (min solar_rad cs_rad)))"

text \<open>
  \<^verbatim>\<open>
    _check_latitude_in_radians(latitude)
    _check_solar_declination_in_radians(sd)
    tmp = -math.tan(latitude) * math.tan(sd)
    tmp = max(tmp, -1.0)
    tmp = min(tmp, 1.0)
    return math.acos(tmp)
  \<close>
  \<^verbatim>\<open>math.tan\<close> is total on floats; \<^term>\<open>tan\<close> is its value on the reals (0 by HOL's
  convention at an exact pole, which no float is).
\<close>

definition sunset_hour_angle :: "real \<Rightarrow> real \<Rightarrow> error + real" where
  "sunset_hour_angle latitude sd =
     and_then (call_global ''_check_latitude_in_radians'' latitude) (\<lambda>_.
     and_then (call_global ''_check_solar_declination_in_radians'' sd) (\<lambda>_.
       let tmp = - tan latitude * tan sd;
           tmp = max tmp (- 1);
           tmp = min tmp 1
       in math_acos tmp))"

subsection \<open>Psychrometric constant of a psychrometer\<close>

text \<open>
  \<^verbatim>\<open>
    if psychrometer == 1: psy_coeff = 0.000662
    elif psychrometer == 2: psy_coeff = 0.000800
    elif psychrometer == 3: psy_coeff = 0.001200
    else: raise ValueError(...)
    return psy_coeff * atmos_pres
  \<close>
\<close>

definition psychrometric_const_of_psychrometer :: "int \<Rightarrow> real \<Rightarrow> error + real" where
  "psychrometric_const_of_psychrometer psychrometer atmos_pres =
     and_then
       (if psychrometer = 1 then Inr 0.000662
        else if psychrometer = 2 then Inr 0.000800
        else if psychrometer = 3 then Inr 0.001200
        else Inl ValueError)
       (\<lambda>psy_coeff. Inr (psy_coeff * atmos_pres))"

subsection \<open>Monthly soil heat flux\<close>

text \<open>\<^verbatim>\<open>return 0.07 * (t_month_next - t_month_prev)\<close>\<close>

definition monthly_soil_heat_flux :: "real \<Rightarrow> real \<Rightarrow> real" where
  "monthly_soil_heat_flux t_month_prev t_month_next = 0.07 * (t_month_next - t_month_prev)"

text \<open>\<^verbatim>\<open>return 0.14 * (t_month_cur - t_month_prev)\<close>\<close>

definition monthly_soil_heat_flux2 :: "real \<Rightarrow> real \<Rightarrow> real" where
  "monthly_soil_heat_flux2 t_month_prev t_month_cur = 0.14 * (t_month_cur - t_month_prev)"

section \<open>Properties\<close>

subsection \<open>Helper facts about the primitives\<close>

lemma and_then_Inr: "and_then (Inr v) f = f v"
  by (simp add: and_then_def)

lemma and_then_Inl: "and_then (Inl e) f = Inl e"
  by (simp add: and_then_def)

lemma call_global_unbound: "fao_globals name = None \<Longrightarrow> call_global name x = Inl NameError"
  by (simp add: call_global_def)

lemma underscore_names_unbound:
  "fao_globals ''_check_latitude_in_radians'' = None"
  "fao_globals ''_check_solar_declination_in_radians'' = None"
  "fao_globals ''_check_doy'' = None"
  by (simp_all add: fao_globals_def)

lemma pow_half_negative: "x < 0 \<Longrightarrow> pow_half x = PyComplex (Complex 0 (sqrt (- x)))"
  by (simp add: pow_half_def csqrt_of_real_nonpos complex_eq_iff)

lemma pow_half_nonnegative: "0 \<le> x \<Longrightarrow> pow_half x = PyFloat (sqrt x)"
  by (simp add: pow_half_def)

subsection \<open>Hargreaves\<close>

text \<open>
  With \<open>tmin \<le> tmax\<close> the function returns the float of the Hargreaves equation; with
  \<open>tmax < tmin\<close> it returns a purely imaginary complex number.
\<close>

lemma hargreaves_float:
  "tmin \<le> tmax \<Longrightarrow>
   hargreaves tmin tmax tmean Ra =
     Inr (PyFloat (0.0023 * (tmean + 17.8) * sqrt (tmax - tmin) * Ra))"
  by (simp add: hargreaves_def pow_half_nonnegative)

lemma hargreaves_complex:
  "tmax < tmin \<Longrightarrow>
   hargreaves tmin tmax tmean Ra =
     Inr (PyComplex (Complex 0 (0.0023 * (tmean + 17.8) * sqrt (tmin - tmax) * Ra)))"
  by (simp add: hargreaves_def pow_half_negative complex_eq_iff)

text \<open>
  Claim C1 says that for \<open>tmax < tmin\<close> \<^verbatim>\<open>hargreaves\<close> fails with a DomainError rather
  than returning a complex result. The body has no guard and no \<^verbatim>\<open>math.sqrt\<close>: at
  \<^verbatim>\<open>hargreaves(tmin=26, tmax=20, tmean=23, Ra=15)\<close> the power \<^verbatim>\<open>(-6) ** 0.5\<close> is the
  complex square root of \<open>-6\<close>, and the call returns a complex number.
\<close>

theorem hargreaves_tmax_below_tmin:
  "hargreaves 26 20 23 15 =
     Inr (PyComplex (Complex 0 (0.0023 * (23 + 17.8) * sqrt 6 * 15)))"
  by (simp add: hargreaves_def pow_half_negative complex_eq_iff)

subsection \<open>Extraterrestrial radiation\<close>

text \<open>
  The declination check of \<^verbatim>\<open>et_radiation\<close> is applied to the latitude. A latitude
  beyond 0.4093 rad in absolute value is therefore rejected whatever the declination
  is, and no declination ever is.
\<close>

lemma et_radiation_latitude_as_declination:
  "et_radiation 1 0 (pi / 2) 1 = Inl ValueError"
  using pi_ge_two
  by (simp add: et_radiation_def check_latitude_in_radians_def
      check_solar_declination_in_radians_def and_then_def)

text \<open>
  Claim C2 says that for a latitude within \<open>[-\<pi>/2, \<pi>/2]\<close> and a solar declination
  \<open>sd\<close> outside \<open>[-0.4093, 0.4093]\<close> \<^verbatim>\<open>et_radiation\<close> fails with a DomainError. At
  latitude 0 and \<open>sd = 1\<close> (with \<open>sha = \<pi>/2\<close>, \<open>irl = 1\<close>) both checks pass, since both
  are given the latitude, and the call returns a value.
\<close>

theorem et_radiation_declination_unchecked:
  "et_radiation 0 1 (pi / 2) 1 = Inr ((24 * 60) / pi * 0.0820 * cos 1)"
  by (simp add: et_radiation_def check_latitude_in_radians_def
      check_solar_declination_in_radians_def and_then_def SOLAR_CONSTANT_def)

subsection \<open>Actual vapour pressure from the minimum temperature\<close>

text \<open>
  Claim C3 as stated, \<^verbatim>\<open>ea_from_tmin(t) = es_from_t(t)\<close> for every \<open>t\<close>, fails at
  \<open>t = 0\<close>: the two functions return their leading coefficients, 0.611 and 0.6108.
\<close>

theorem ea_from_tmin_differs_from_es_from_t:
  "ea_from_tmin 0 = Inr 0.611 \<and> es_from_t 0 = Inr 0.6108 \<and> ea_from_tmin 0 \<noteq> es_from_t 0"
  by (simp add: ea_from_tmin_def es_from_t_def py_div_def and_then_def)

text \<open>
  Claim C3, amended. For every temperature \<open>t\<close> other than \<open>-237.3\<close>,
  \<^verbatim>\<open>ea_from_tmin(t)\<close> is \<open>0.611 * exp(17.27 t / (t + 237.3))\<close>, the saturation formula with
  the coefficient 0.611 of FAO equation 48 in place of the 0.6108 of \<^verbatim>\<open>es_from_t\<close>; at
  \<open>t = -237.3\<close> the division raises \<^verbatim>\<open>ZeroDivisionError\<close>. In both cases
  \<^verbatim>\<open>ea_from_tmin(t)\<close> is the outcome of \<^verbatim>\<open>es_from_t(t)\<close> scaled by \<open>0.611 / 0.6108\<close>.
\<close>

theorem ea_from_tmin_formula:
  "ea_from_tmin t =
     (if t = - 237.3 then Inl ZeroDivisionError
      else Inr (0.611 * exp (17.27 * t / (t + 237.3)))) \<and>
   ea_from_tmin t = and_then (es_from_t t) (\<lambda>es. Inr (0.611 / 0.6108 * es))"
  by (auto simp add: ea_from_tmin_def es_from_t_def py_div_def and_then_def)

subsection \<open>Sunset hour angle\<close>

text \<open>
  The tail of the function does what is intended of it: whatever the product of the
  tangents is, the clamped value is in the domain of \<^verbatim>\<open>math.acos\<close> and the result lies
  in \<open>[0, \<pi>]\<close>.
\<close>

lemma math_acos_clamped:
  "\<exists>w. math_acos (min (max x (- 1)) 1) = Inr w \<and> 0 \<le> w \<and> w \<le> pi"
proof -
  define y where "y = min (max x (- 1)) 1"
  have dom: "- 1 \<le> y" "y \<le> 1"
    by (simp_all add: y_def)
  then have "math_acos y = Inr (arccos y)" "0 \<le> arccos y" "arccos y \<le> pi"
    by (simp_all add: math_acos_def arccos_lbound arccos_ubound)
  then show ?thesis
    unfolding y_def by blast
qed

text \<open>The tail is never reached: the first statement of the body raises for every
  argument.\<close>

lemma sunset_hour_angle_never_returns: "sunset_hour_angle latitude sd = Inl NameError"
  by (simp add: sunset_hour_angle_def call_global_unbound underscore_names_unbound and_then_Inl)

text \<open>
  Claim C5 says that for every latitude in \<open>[-\<pi>/2, \<pi>/2]\<close> and every solar declination
  in \<open>[-0.4093, 0.4093]\<close> \<^verbatim>\<open>sunset_hour_angle(latitude, sd)\<close> returns a value in
  \<open>[0, \<pi>]\<close>. At latitude 0 and declination 0, both in range, the call
  \<^verbatim>\<open>_check_latitude_in_radians(latitude)\<close> raises \<^verbatim>\<open>NameError\<close>, the name being bound
  nowhere in the module, and nothing is returned.
\<close>

theorem sunset_hour_angle_unbound_validator: "sunset_hour_angle 0 0 = Inl NameError"
  by (simp add: sunset_hour_angle_def call_global_unbound underscore_names_unbound and_then_Inl)

subsection \<open>Solar radiation from temperature\<close>

text \<open>
  Claim C6. For every \<open>et_rad\<close>, \<open>cs_rad\<close>, \<open>tmin\<close>, \<open>tmax\<close> with \<open>tmax \<ge> tmin\<close> and for
  both values of the coastal flag, \<^verbatim>\<open>solar_radiation_from_t\<close> returns
  \<open>min(adj * sqrt(tmax - tmin) * et_rad, cs_rad)\<close> with \<open>adj = 0.19\<close> if coastal and
  \<open>0.16\<close> otherwise; in particular the result never exceeds \<open>cs_rad\<close>.
\<close>

theorem solar_radiation_from_t_capped:
  assumes "tmin \<le> tmax"
  shows "solar_radiation_from_t et_rad cs_rad tmin tmax coastal =
           Inr (min ((if coastal then 0.19 else 0.16) * sqrt (tmax - tmin) * et_rad) cs_rad) \<and>
         (\<exists>r. solar_radiation_from_t et_rad cs_rad tmin tmax coastal = Inr r \<and> r \<le> cs_rad)"
  using assms by (simp add: solar_radiation_from_t_def math_sqrt_def and_then_def Let_def)

theorem solar_radiation_from_t_capped_witness:
  "(10 :: real) \<le> 25 \<and>
   solar_radiation_from_t 25 20 10 25 False = Inr (min (0.16 * sqrt (25 - 10) * 25) 20) \<and>
   (\<exists>r. solar_radiation_from_t 25 20 10 25 False = Inr r \<and> r \<le> 20)"
proof -
  have h: "(10 :: real) \<le> 25" by simp
  show ?thesis
    using solar_radiation_from_t_capped [OF h, of 25 20 False] by simp
qed

subsection \<open>Psychrometric constant of a psychrometer\<close>

text \<open>
  Claim C7. For every atmospheric pressure \<open>p\<close>,
  \<^verbatim>\<open>psychrometric_const_of_psychrometer(type, p)\<close> returns \<open>0.000662 * p\<close> for type 1,
  \<open>0.000800 * p\<close> for type 2 and \<open>0.001200 * p\<close> for type 3, and it fails, with the
  \<^verbatim>\<open>ValueError\<close> the specification calls InvalidArgument, if and only if the type is
  not in \<open>{1, 2, 3}\<close>.
\<close>

theorem psychrometric_const_of_psychrometer_cases:
  "psychrometric_const_of_psychrometer 1 p = Inr (0.000662 * p) \<and>
   psychrometric_const_of_psychrometer 2 p = Inr (0.000800 * p) \<and>
   psychrometric_const_of_psychrometer 3 p = Inr (0.001200 * p) \<and>
   ((\<exists>e. psychrometric_const_of_psychrometer ty p = Inl e) \<longleftrightarrow> ty \<notin> {1, 2, 3}) \<and>
   (psychrometric_const_of_psychrometer ty p = Inl ValueError \<longleftrightarrow> ty \<notin> {1, 2, 3})"
  by (simp add: psychrometric_const_of_psychrometer_def and_then_def)

subsection \<open>Inverse relative distance between earth and sun\<close>

text \<open>The returned expression is within the bounds of the cosine, for any day.\<close>

lemma earth_sun_expression_bounds:
  "0.967 \<le> 1 + (0.033 * cos ((2 * pi / 365) * real_of_int doy)) \<and>
   1 + (0.033 * cos ((2 * pi / 365) * real_of_int doy)) \<le> 1.033"
proof -
  define c where "c = cos ((2 * pi / 365) * real_of_int doy)"
  have "- 1 \<le> c" and "c \<le> 1"
    unfolding c_def by (rule cos_ge_minus_one, rule cos_le_one)
  then have "0.967 \<le> 1 + (0.033 * c) \<and> 1 + (0.033 * c) \<le> 1.033"
    by simp
  then show ?thesis
    unfolding c_def .
qed

text \<open>The return statement is never reached: \<^verbatim>\<open>_check_doy(doy)\<close> raises for every
  day.\<close>

lemma inv_rel_dist_earth_sun_never_returns: "inv_rel_dist_earth_sun doy = Inl NameError"
  by (simp add: inv_rel_dist_earth_sun_def call_global_unbound underscore_names_unbound
      and_then_Inl)

text \<open>
  Claim C8 says that for every integer \<open>doy\<close> in \<open>[1, 366]\<close>
  \<^verbatim>\<open>inv_rel_dist_earth_sun(doy)\<close> succeeds with a result in \<open>[0.967, 1.033]\<close>. At
  \<open>doy = 1\<close> the call \<^verbatim>\<open>_check_doy(doy)\<close> raises \<^verbatim>\<open>NameError\<close>: the module imports the
  validator under the name \<^verbatim>\<open>check_doy\<close> and binds \<^verbatim>\<open>_check_doy\<close> nowhere.
\<close>

theorem inv_rel_dist_earth_sun_unbound_validator: "inv_rel_dist_earth_sun 1 = Inl NameError"
  by (simp add: inv_rel_dist_earth_sun_def call_global_unbound underscore_names_unbound
      and_then_Inl)

subsection \<open>Mean saturation vapour pressure\<close>

text \<open>
  Claim C9. For every temperature \<open>t\<close>, \<^verbatim>\<open>mean_es(t, t)\<close> equals \<^verbatim>\<open>es_from_t(t)\<close>: the mean
  of the saturation vapour pressure at two identical temperatures is the saturation
  vapour pressure at that temperature. The equality is one of outcomes: at
  \<open>t = -237.3\<close> both calls raise \<^verbatim>\<open>ZeroDivisionError\<close>.
\<close>

theorem mean_es_same_temperature: "mean_es t t = es_from_t t"
  by (cases "es_from_t t") (simp_all add: mean_es_def and_then_def)

subsection \<open>Monthly soil heat flux\<close>

text \<open>
  Claim C10. For every pair of monthly mean temperatures \<open>a\<close> and \<open>b\<close>,
  \<^verbatim>\<open>monthly_soil_heat_flux2(a, b)\<close> is exactly twice \<^verbatim>\<open>monthly_soil_heat_flux(a, b)\<close>.
\<close>

theorem monthly_soil_heat_flux2_twice:
  "monthly_soil_heat_flux2 a b = 2 * monthly_soil_heat_flux a b"
  by (simp add: monthly_soil_heat_flux2_def monthly_soil_heat_flux_def)

end
